theory Spec2Isabelle
  imports Complex_Main "HOL-Library.Word"
begin

chapter \<open>Definitions\<close>

section \<open>JavaScript values\<close>

text \<open>
  The value of a parsed JSON document. An object is the list of its own properties in
  insertion order (keys distinct, as \<^verbatim>\<open>JSON.parse\<close> leaves them). A variable of type
  \<^verbatim>\<open>any|undefined\<close> is a \<open>json option\<close>, \<open>None\<close> being \<^verbatim>\<open>undefined\<close>.
\<close>

datatype json =
    JNull
  | JBool bool
  | JNumber rat
  | JString string
  | JArray "json list"
  | JObject "(string \<times> json) list"

text \<open>What \<^verbatim>\<open>if (v)\<close>, \<^verbatim>\<open>v && w\<close> and \<^verbatim>\<open>v || w\<close> test.\<close>

fun truthy :: "json option \<Rightarrow> bool" where
  "truthy None = False"
| "truthy (Some JNull) = False"
| "truthy (Some (JBool b)) = b"
| "truthy (Some (JNumber n)) = (n \<noteq> 0)"
| "truthy (Some (JString s)) = (s \<noteq> [])"
| "truthy (Some (JArray xs)) = True"
| "truthy (Some (JObject kvs)) = True"

datatype error = SyntaxError | TypeError | ValidationError string

text \<open>
  \<^verbatim>\<open>JSON.parse\<close> belongs to the platform. The content of a file is represented by what
  \<^verbatim>\<open>JSON.parse(content.toString())\<close> makes of it: a value, or a \<^verbatim>\<open>SyntaxError\<close>.
\<close>

datatype content = Unparsable | Parsable json

definition JSON_parse :: "content \<Rightarrow> error + json" where
  "JSON_parse c = (case c of Unparsable \<Rightarrow> Inl SyntaxError | Parsable v \<Rightarrow> Inr v)"

text \<open>Decimal strings of array indices, for the keys of arrays and strings.\<close>

function decimal :: "nat \<Rightarrow> string" where
  "decimal n =
     (if 10 \<le> n then decimal (n div 10) else []) @ [char_of (n mod 10 + 48)]"
  by pat_completeness auto
termination
  by (relation "measure id") auto

definition is_digit :: "char \<Rightarrow> bool" where
  "is_digit c \<longleftrightarrow> 48 \<le> (of_char c :: nat) \<and> (of_char c :: nat) \<le> 57"

definition int_of_digits :: "string \<Rightarrow> int" where
  "int_of_digits s = foldl (\<lambda>a c. 10 * a + (of_char c - 48)) 0 s"

text \<open>A property key is an array index when it is the canonical decimal string (no
  leading zero) of a number below \<open>2^32 - 1\<close>.\<close>

definition index_of_key :: "string \<Rightarrow> nat option" where
  "index_of_key key =
     (if key \<noteq> [] \<and> list_all is_digit key
         \<and> (length key = 1 \<or> hd key \<noteq> CHR ''0'')
         \<and> int_of_digits key < 2 ^ 32 - 1
      then Some (nat (int_of_digits key)) else None)"

text \<open>
  The keys \<^verbatim>\<open>for (const key in v)\<close> visits: the own enumerable properties, array indices
  first in ascending order, then the other keys in insertion order. (The prototypes of
  plain objects, arrays and strings have no enumerable property.)
\<close>

definition forInKeys :: "json \<Rightarrow> string list" where
  "forInKeys v =
     (case v of
        JObject kvs \<Rightarrow>
          map decimal (sort (List.map_filter index_of_key (map fst kvs)))
          @ filter (\<lambda>k. index_of_key k = None) (map fst kvs)
      | JArray xs \<Rightarrow> map decimal [0..<length xs]
      | JString s \<Rightarrow> map decimal [0..<length s]
      | _ \<Rightarrow> [])"

text \<open>
  \<^verbatim>\<open>v[key]\<close> on a value that is neither \<^verbatim>\<open>null\<close> nor \<^verbatim>\<open>undefined\<close>: the own property.
  Properties inherited from a prototype are functions or, for \<^verbatim>\<open>__proto__\<close>, the
  prototype itself; they are left out of the model and read as \<^verbatim>\<open>undefined\<close>.
\<close>

definition getProp :: "json \<Rightarrow> string \<Rightarrow> json option" where
  "getProp v key =
     (case v of
        JObject kvs \<Rightarrow> map_of kvs key
      | JArray xs \<Rightarrow>
          (case index_of_key key of
             Some i \<Rightarrow> if i < length xs then Some (xs ! i) else None
           | None \<Rightarrow> if key = ''length'' then Some (JNumber (of_nat (length xs))) else None)
      | JString s \<Rightarrow>
          (case index_of_key key of
             Some i \<Rightarrow> if i < length s then Some (JString [s ! i]) else None
           | None \<Rightarrow> if key = ''length'' then Some (JNumber (of_nat (length s))) else None)
      | _ \<Rightarrow> None)"

definition isArray :: "json option \<Rightarrow> bool" where
  "isArray v = (case v of Some (JArray xs) \<Rightarrow> True | _ \<Rightarrow> False)"

text \<open>The spread \<^verbatim>\<open>...v\<close> inside an array literal: the elements of an iterable, a
  \<^verbatim>\<open>TypeError\<close> for anything else.\<close>

definition spread :: "json option \<Rightarrow> error + json list" where
  "spread v =
     (case v of
        Some (JArray xs) \<Rightarrow> Inr xs
      | Some (JString s) \<Rightarrow> Inr (map (\<lambda>c. JString [c]) s)
      | _ \<Rightarrow> Inl TypeError)"

section \<open>ConfigFile (src/api/config/configFile.ts)\<close>

definition WORKSPACE_ROOT :: string where
  "WORKSPACE_ROOT = ''.vscode''"

definition SERVER_ROOT :: string where
  "SERVER_ROOT = ''/etc/.vscode''"

datatype ConfigResult = not_loaded | no_exist | failed_to_parse | ok

record LoadResult =
  workspace :: ConfigResult
  server :: ConfigResult

text \<open>
  \<^verbatim>\<open>validateAndCleanInPlace\<close> is supplied by the owner of the configuration. It throws
  (\<open>Inl\<close>), or returns (\<open>Inr\<close>) the pair of its argument as it left it after cleaning it
  in place and the value it returned.
\<close>

type_synonym validator = "json option \<Rightarrow> error + (json option \<times> json option)"

text \<open>A primitive or \<^verbatim>\<open>undefined\<close> cannot be changed in place; an object or an array can.\<close>

definition afterCleaning :: "json option \<Rightarrow> json option \<Rightarrow> json option" where
  "afterCleaning v cleaned =
     (case v of
        Some (JArray xs) \<Rightarrow> cleaned
      | Some (JObject kvs) \<Rightarrow> cleaned
      | _ \<Rightarrow> v)"

record ConfigFile =
  state :: LoadResult
  basename :: string
  workspaceFile :: string
  serverFile :: string
  serverData :: "json option"
  hasServerFile :: bool
  mergeArrays :: bool
  validateAndCleanInPlace :: "validator option"

text \<open>The constructor; \<open>configId\<close> is a plain file stem, so joining paths is concatenation.\<close>

definition new_ConfigFile :: "string \<Rightarrow> ConfigFile" where
  "new_ConfigFile configId =
     \<lparr> state = \<lparr> workspace = not_loaded, server = not_loaded \<rparr>,
       basename = configId @ ''.json'',
       workspaceFile = WORKSPACE_ROOT @ ''/'' @ configId @ ''.json'',
       serverFile = SERVER_ROOT @ ''/'' @ configId @ ''.json'',
       serverData = None,
       hasServerFile = False,
       mergeArrays = False,
       validateAndCleanInPlace = None \<rparr>"

definition set_server :: "ConfigResult \<Rightarrow> ConfigFile \<Rightarrow> ConfigFile" where
  "set_server r this = this \<lparr> state := (state this) \<lparr> server := r \<rparr> \<rparr>"

definition set_workspace :: "ConfigResult \<Rightarrow> ConfigFile \<Rightarrow> ConfigFile" where
  "set_workspace r this = this \<lparr> state := (state this) \<lparr> workspace := r \<rparr> \<rparr>"

text \<open>
  \<^verbatim>\<open>loadFromServer\<close>. The remote file system is a map from paths to contents:
  \<^verbatim>\<open>testStreamFile\<close> holds where it is defined and \<^verbatim>\<open>downloadStreamfileRaw\<close> reads it
  (both are taken to return). The result is the exception thrown, if any, and the
  object as the call leaves it.
\<close>

definition loadFromServer ::
  "(string \<Rightarrow> content option) \<Rightarrow> ConfigFile \<Rightarrow> (error + unit) \<times> ConfigFile" where
  "loadFromServer remote this =
     (if hasServerFile this then
        let this1 = set_server no_exist this;
            (serverConfig, this2) =
              (case remote (serverFile this1) of
                 None \<Rightarrow> (None, this1)
               | Some content \<Rightarrow>
                   (case JSON_parse content of
                      Inr v \<Rightarrow> (Some v, set_server ok this1)
                    | Inl e \<Rightarrow> (None, set_server failed_to_parse this1)))
        in (case validateAndCleanInPlace this2 of
              None \<Rightarrow> (Inr (), this2 \<lparr> serverData := serverConfig \<rparr>)
            | Some validate \<Rightarrow>
                (case validate serverConfig of
                   Inl e \<Rightarrow> (Inl e, this2)
                 | Inr (cleaned, returned) \<Rightarrow>
                     (Inr (), this2 \<lparr> serverData := afterCleaning serverConfig cleaned \<rparr>)))
      else (Inr (), this))"

text \<open>
  The editor's workspace: \<^verbatim>\<open>workspace.workspaceFolders\<close>, and for a folder and a glob
  pattern the contents of the files \<^verbatim>\<open>workspace.findFiles\<close> finds, as
  \<^verbatim>\<open>workspace.fs.readFile\<close> reads them.
\<close>

record Workspace =
  workspaceFolders :: "string list option"
  findFiles :: "string \<Rightarrow> string \<Rightarrow> content list"

text \<open>The loop over \<^verbatim>\<open>configFiles\<close> (lines 71 to 79).\<close>

fun readConfigFiles ::
  "content list \<Rightarrow> json option \<times> ConfigFile \<Rightarrow> json option \<times> ConfigFile" where
  "readConfigFiles [] acc = acc"
| "readConfigFiles (content # files) (workspaceConfig, this) =
     readConfigFiles files
       (case JSON_parse content of
          Inr v \<Rightarrow> (Some v, set_workspace ok this)
        | Inl e \<Rightarrow> (workspaceConfig, set_server failed_to_parse this))"

text \<open>
  The loop of lines 90 to 94 over the keys of the workspace document, with
  \<^verbatim>\<open>resultingConfig\<close> as the accumulator: the test reads the accumulator, the
  assignment replaces it.
\<close>

fun mergeLoop :: "json \<Rightarrow> json \<Rightarrow> string list \<Rightarrow> json \<Rightarrow> error + json" where
  "mergeLoop workspaceConfig sd [] resultingConfig = Inr resultingConfig"
| "mergeLoop workspaceConfig sd (key # keys) resultingConfig =
     (if isArray (getProp resultingConfig key) \<and> isArray (getProp sd key) then
        (case spread (getProp workspaceConfig key) of
           Inl e \<Rightarrow> Inl e
         | Inr ws \<Rightarrow>
             (case spread (getProp sd key) of
                Inl e \<Rightarrow> Inl e
              | Inr ss \<Rightarrow> mergeLoop workspaceConfig sd keys (JArray (ws @ ss))))
      else mergeLoop workspaceConfig sd keys resultingConfig)"

text \<open>Lines 86 to 99: the document before validation.\<close>

definition combine :: "bool \<Rightarrow> json option \<Rightarrow> json option \<Rightarrow> error + json option" where
  "combine merge workspaceConfig sd =
     (case (workspaceConfig, sd) of
        (Some w, Some s) \<Rightarrow>
          if merge \<and> truthy workspaceConfig \<and> truthy sd
          then map_sum id Some (mergeLoop w s (forInKeys w) w)
          else Inr (if truthy workspaceConfig then workspaceConfig else sd)
      | _ \<Rightarrow> Inr (if truthy workspaceConfig then workspaceConfig else sd))"

text \<open>Lines 65 to 80: the search of the workspace folder and the reading of what it
  finds.\<close>

definition readWorkspaceConfig ::
  "Workspace \<Rightarrow> string option \<Rightarrow> ConfigFile \<Rightarrow> json option \<times> ConfigFile" where
  "readWorkspaceConfig ws currentWorkspace this =
     (case (workspaceFolders ws, currentWorkspace) of
        (Some folders, Some folder) \<Rightarrow>
          readConfigFiles (findFiles ws folder (''**/'' @ workspaceFile this))
            (None, set_server no_exist this)
      | _ \<Rightarrow> (None, this))"

text \<open>
  \<^verbatim>\<open>get(currentWorkspace)\<close>: the value returned or the exception thrown, and the object
  as the call leaves it. The first line is the early return of line 60. A call runs to
  its end before another one starts: nothing changes \<^verbatim>\<open>serverData\<close> while \<^verbatim>\<open>get\<close> awaits
  the workspace.
\<close>

definition get ::
  "Workspace \<Rightarrow> string option \<Rightarrow> ConfigFile \<Rightarrow> (error + json option) \<times> ConfigFile" where
  "get ws currentWorkspace this =
     (if truthy (serverData this) then (Inr (serverData this), this)
      else
        let (workspaceConfig, this1) = readWorkspaceConfig ws currentWorkspace this
        in if workspaceConfig = None \<and> serverData this1 = None then (Inr None, this1)
           else
             (case combine (mergeArrays this1) workspaceConfig (serverData this1) of
                Inl e \<Rightarrow> (Inl e, this1)
              | Inr resultingConfig \<Rightarrow>
                  (case validateAndCleanInPlace this1 of
                     None \<Rightarrow> (Inr resultingConfig, this1)
                   | Some validate \<Rightarrow>
                       (case validate resultingConfig of
                          Inl e \<Rightarrow> (Inl e, this1)
                        | Inr (cleaned, returned) \<Rightarrow> (Inr returned, this1)))))"

definition reset :: "ConfigFile \<Rightarrow> ConfigFile" where
  "reset this = this \<lparr> serverData := None \<rparr>"

definition getState :: "ConfigFile \<Rightarrow> LoadResult" where
  "getState this = state this"

text \<open>A workspace with a single folder in which the search finds the given files, and
  an editor with no folder open.\<close>

definition oneFolder :: "content list \<Rightarrow> Workspace" where
  "oneFolder files =
     \<lparr> workspaceFolders = Some [''project''], findFiles = (\<lambda>folder pattern. files) \<rparr>"

definition noFolder :: Workspace where
  "noFolder = \<lparr> workspaceFolders = None, findFiles = (\<lambda>folder pattern. []) \<rparr>"

section \<open>Resource URIs (areEquivalentUris, uriStringWithoutFragment)\<close>

text \<open>The parts of a \<^verbatim>\<open>vscode.Uri\<close>. The options of a resource, the read-only flag among
  them, travel in the query.\<close>

record Uri =
  scheme :: string
  authority :: string
  path :: string
  query :: string
  fragment :: string

text \<open>
  The test \<^verbatim>\<open>/^\/QOpenSys\//i.test(p)\<close>. Under the flag \<^verbatim>\<open>i\<close> a character of the input
  matches a character of this pattern when the two are equal or are the capital and
  the small form of one ASCII letter; no other character matches an ASCII letter. The
  test holds when the first ten characters of the path match the pattern one by one.
\<close>

definition isAsciiLetter :: "char \<Rightarrow> bool" where
  "isAsciiLetter c \<longleftrightarrow>
     (65 \<le> (of_char c :: nat) \<and> (of_char c :: nat) \<le> 90)
     \<or> (97 \<le> (of_char c :: nat) \<and> (of_char c :: nat) \<le> 122)"

definition matchesIgnoringCase :: "char \<Rightarrow> char \<Rightarrow> bool" where
  "matchesIgnoringCase c d \<longleftrightarrow>
     c = d \<or> (isAsciiLetter c \<and> isAsciiLetter d
               \<and> (of_char c :: nat) mod 32 = (of_char d :: nat) mod 32)"

definition testQOpenSys :: "string \<Rightarrow> bool" where
  "testQOpenSys p \<longleftrightarrow> list_all2 matchesIgnoringCase (take 10 p) ''/QOpenSys/''"

definition isCaseSensitive :: "Uri \<Rightarrow> bool" where
  "isCaseSensitive uri \<longleftrightarrow> scheme uri = ''streamfile'' \<and> testQOpenSys (path uri)"

text \<open>
  \<^verbatim>\<open>String.prototype.toLowerCase\<close> belongs to the platform and follows the Unicode case
  mapping, which is neither confined to the ASCII letters nor character by character.
  It is the parameter \<open>toLowerCase\<close> of the functions that call it, and nothing is taken
  for granted about it.
\<close>

definition uriStringWithoutFragment :: "(string \<Rightarrow> string) \<Rightarrow> Uri \<Rightarrow> string" where
  "uriStringWithoutFragment toLowerCase uri =
     (let baseUri = scheme uri @ '':'' @ path uri
      in if isCaseSensitive uri then baseUri else toLowerCase baseUri)"

definition areEquivalentUris :: "(string \<Rightarrow> string) \<Rightarrow> Uri \<Rightarrow> Uri \<Rightarrow> bool" where
  "areEquivalentUris toLowerCase uriA uriB \<longleftrightarrow>
     uriStringWithoutFragment toLowerCase uriA = uriStringWithoutFragment toLowerCase uriB"

text \<open>
  The specification's normalization of a path, to compare the code with: lower case,
  except for a stream file under the case-sensitive root, whose path is kept as it is.
  The scheme tags of resources are the four the specification lists.
\<close>

definition normalizedPath :: "(string \<Rightarrow> string) \<Rightarrow> Uri \<Rightarrow> string" where
  "normalizedPath toLowerCase uri =
     (if isCaseSensitive uri then path uri else toLowerCase (path uri))"

definition isResourceScheme :: "string \<Rightarrow> bool" where
  "isResourceScheme s \<longleftrightarrow> s \<in> set [''member'', ''streamfile'', ''object'', ''file'']"

text \<open>
  The code lowers the string \<^verbatim>\<open>scheme:path\<close> as a whole, the specification lowers the
  path. The two agree at a URI when lowering the whole string leaves the scheme and the
  colon as they are and lowers the path as it would on its own. The platform's function
  does so for the four schemes, which are small ASCII letters, and a path that begins
  with a slash: the slash separates the path from what precedes it for the one mapping
  that looks at neighbouring characters, that of the capital sigma.
\<close>

definition lowersByParts :: "(string \<Rightarrow> string) \<Rightarrow> Uri \<Rightarrow> bool" where
  "lowersByParts toLowerCase uri \<longleftrightarrow>
     toLowerCase (scheme uri @ '':'' @ path uri) = scheme uri @ '':'' @ toLowerCase (path uri)"

text \<open>A case mapping given character by character by a table of pairs, to state what
  \<^verbatim>\<open>toLowerCase\<close> does to the strings of an example.\<close>

definition caseTable :: "(char \<times> char) list \<Rightarrow> string \<Rightarrow> string" where
  "caseTable table s = map (\<lambda>c. case map_of table c of Some d \<Rightarrow> d | None \<Rightarrow> c) s"

section \<open>Disconnecting (src/instantiate.ts)\<close>

text \<open>A string that may be \<^verbatim>\<open>undefined\<close>, as a condition.\<close>

definition truthyString :: "string option \<Rightarrow> bool" where
  "truthyString v = (case v of None \<Rightarrow> False | Some s \<Rightarrow> s \<noteq> [])"

record TextDocument =
  uri :: Uri
  isClosed :: bool
  isDirty :: bool

datatype disconnect_effect =
    ShowTextDocument TextDocument
  | ShowErrorMessage string "string list"
  | ConnectionEnd

text \<open>The number of error messages shown so far; the user's answer to the next one may
  depend on it and on the document shown.\<close>

definition prompts :: "disconnect_effect list \<Rightarrow> nat" where
  "prompts trace =
     length (filter (\<lambda>e. case e of ShowErrorMessage m items \<Rightarrow> True | _ \<Rightarrow> False) trace)"

definition promptFor :: "TextDocument \<Rightarrow> disconnect_effect list" where
  "promptFor document =
     [ShowTextDocument document,
      ShowErrorMessage ''Cannot disconnect while files have not been saved.''
        [''Disconnect anyway'']]"

text \<open>
  The loop of \<^verbatim>\<open>disconnect\<close> over \<^verbatim>\<open>vscode.workspace.textDocuments\<close>. \<open>user\<close> gives the
  value \<^verbatim>\<open>showErrorMessage\<close> resolves to: the item chosen, or \<^verbatim>\<open>undefined\<close> when the
  message is dismissed. The second equation returns at once where the source breaks.
\<close>

fun disconnectLoop ::
  "(nat \<Rightarrow> TextDocument \<Rightarrow> string option) \<Rightarrow> TextDocument list \<Rightarrow> bool \<Rightarrow>
   disconnect_effect list \<Rightarrow> bool \<times> disconnect_effect list" where
  "disconnectLoop user [] doDisconnect trace = (doDisconnect, trace)"
| "disconnectLoop user (document # rest) doDisconnect trace =
     (if \<not> isClosed document
         \<and> scheme (uri document) \<in> set [''member'', ''streamfile'', ''object'']
      then
        if isDirty document then
          if doDisconnect then
            if truthyString (user (prompts trace) document)
            then (doDisconnect, trace @ promptFor document)
            else disconnectLoop user rest False (trace @ promptFor document)
          else disconnectLoop user rest doDisconnect trace
        else disconnectLoop user rest doDisconnect trace
      else disconnectLoop user rest doDisconnect trace)"

text \<open>\<^verbatim>\<open>disconnect()\<close>: the value returned and the effects in order. \<open>hasConnection\<close> says
  whether \<^verbatim>\<open>instance.getConnection()\<close> is defined.\<close>

definition disconnect ::
  "(nat \<Rightarrow> TextDocument \<Rightarrow> string option) \<Rightarrow> bool \<Rightarrow> TextDocument list \<Rightarrow>
   bool \<times> disconnect_effect list" where
  "disconnect user hasConnection textDocuments =
     (let (doDisconnect, trace) = disconnectLoop user textDocuments True []
      in (doDisconnect,
          if doDisconnect then (if hasConnection then trace @ [ConnectionEnd] else trace)
          else trace))"

text \<open>An open document of one of the three schemes with unsaved changes.\<close>

definition unsavedRemote :: "TextDocument \<Rightarrow> bool" where
  "unsavedRemote document \<longleftrightarrow>
     \<not> isClosed document
     \<and> scheme (uri document) \<in> set [''member'', ''streamfile'', ''object'']
     \<and> isDirty document"

section \<open>After the disconnection (onDisconnected)\<close>

text \<open>A tab's input is a \<^verbatim>\<open>TabInputText\<close> with its URI, or of another class.\<close>

datatype TabInput = TabInputText Uri | TabInputOther

record Tab =
  tab_label :: string
  tab_input :: TabInput
  tab_isDirty :: bool

datatype BarItem = disconnectBarItem | connectedBarItem | terminalBarItem | actionsBarItem

text \<open>The window: the tabs of each group of \<^verbatim>\<open>tabGroups.all\<close>, and the status bar items
  that are shown.\<close>

record Window =
  tabGroups :: "Tab list list"
  visibleBarItems :: "BarItem list"

text \<open>The two tests on a tab under which \<^verbatim>\<open>tabGroups.close(tab)\<close> is called.\<close>

definition closeCalled :: "Tab \<Rightarrow> bool" where
  "closeCalled tab =
     (case tab_input tab of
        TabInputText u \<Rightarrow> scheme u \<in> set [''member'', ''streamfile'', ''object'']
      | TabInputOther \<Rightarrow> False)"

text \<open>\<^verbatim>\<open>group.tabs.forEach\<close>: closing a tab takes it out of its group.\<close>

definition closeTabs :: "Tab list \<Rightarrow> Tab list" where
  "closeTabs tabs = filter (\<lambda>tab. \<not> closeCalled tab) tabs"

definition hide :: "BarItem \<Rightarrow> BarItem list \<Rightarrow> BarItem list" where
  "hide barItem visible = removeAll barItem visible"

definition onDisconnected :: "Window \<Rightarrow> Window" where
  "onDisconnected w =
     w \<lparr> tabGroups :=
           map (\<lambda>group. if \<not> list_ex tab_isDirty group then closeTabs group else group)
             (tabGroups w),
         visibleBarItems :=
           fold hide [disconnectBarItem, connectedBarItem, terminalBarItem, actionsBarItem]
             (visibleBarItems w) \<rparr>"

definition openTabs :: "Window \<Rightarrow> Tab list" where
  "openTabs w = concat (tabGroups w)"

section \<open>Debug certificates (the commands debug.setup.remote and debug.setup.local)\<close>

definition remoteCertContext :: string where
  "remoteCertContext = ''code-for-ibmi:debug.remote''"

definition localCertContext :: string where
  "localCertContext = ''code-for-ibmi:debug.local''"

text \<open>
  What the commands find: whether \<^verbatim>\<open>instance.connection\<close> is defined, whether the remote
  feature \<^verbatim>\<open>startDebugService.sh\<close> is, the answers of \<^verbatim>\<open>certificates.checkRemoteExists\<close>
  and \<^verbatim>\<open>certificates.checkLocalExists\<close>, the user's answer to the setup question, the
  message \<^verbatim>\<open>certificates.setup\<close> throws with, if it throws, and whether
  \<^verbatim>\<open>certificates.downloadToLocal\<close> throws.
\<close>

record DebugEnv =
  connection :: bool
  startDebugService :: bool
  checkRemoteExists :: bool
  doSetup :: "string option"
  setupThrows :: "string option"
  checkLocalExists :: bool
  downloadToLocalThrows :: bool

datatype debug_effect =
    SetContext string bool
  | DebugErrorMessage string
  | DebugInformationMessage string "string list"
  | CertificatesSetup
  | DownloadToLocal

definition debugPTFInstalled :: "DebugEnv \<Rightarrow> bool" where
  "debugPTFInstalled env \<longleftrightarrow> connection env \<and> startDebugService env"

text \<open>The command \<^verbatim>\<open>code-for-ibmi.debug.setup.local\<close> with its argument \<open>force\<close>
  (\<open>False\<close> when it is called without one).\<close>

definition debug_setup_local :: "bool \<Rightarrow> DebugEnv \<Rightarrow> debug_effect list" where
  "debug_setup_local force env =
     (if connection env then
        if debugPTFInstalled env then
          let localExists = checkLocalExists env;
              (localCertsOk, effects) =
                (if localExists \<and> \<not> force then (True, [])
                 else if downloadToLocalThrows env
                   then (False, [DownloadToLocal,
                           DebugErrorMessage ''Failed to download new local debug certificate''])
                   else (True, [DownloadToLocal]))
          in effects @ (if localCertsOk then [SetContext localCertContext True] else [])
        else [DebugErrorMessage ''Debug PTF not installed.'']
      else [])"

text \<open>The command \<^verbatim>\<open>code-for-ibmi.debug.setup.remote\<close>, which ends by executing the
  local command with \<^verbatim>\<open>remoteCertsAreNew\<close>.\<close>

definition debug_setup_remote :: "DebugEnv \<Rightarrow> debug_effect list" where
  "debug_setup_remote env =
     (if connection env then
        if debugPTFInstalled env then
          let remoteExists = checkRemoteExists env;
              (remoteCertsAreNew, remoteCertsOk, effects) =
                (if remoteExists then (False, True, [])
                 else if truthyString (doSetup env) then
                   (case setupThrows env of
                      None \<Rightarrow>
                        (True, True,
                         [DebugInformationMessage ''Debug setup'' [''Continue''],
                          CertificatesSetup])
                    | Some message \<Rightarrow>
                        (False, False,
                         [DebugInformationMessage ''Debug setup'' [''Continue''],
                          CertificatesSetup, DebugErrorMessage message]))
                 else (False, False, [DebugInformationMessage ''Debug setup'' [''Continue'']]))
          in effects @
             (if remoteCertsOk
              then SetContext remoteCertContext True # debug_setup_local remoteCertsAreNew env
              else [])
        else [DebugErrorMessage ''Debug PTF not installed.'']
      else [DebugErrorMessage ''No connection to IBM i available.''])"

text \<open>The run of the remote command in which the certificates are generated.\<close>

definition freshlyGenerated :: "DebugEnv \<Rightarrow> bool" where
  "freshlyGenerated env \<longleftrightarrow>
     connection env \<and> debugPTFInstalled env \<and> \<not> checkRemoteExists env
     \<and> truthyString (doSetup env) \<and> setupThrows env = None"

section \<open>The colour checker (src/languages/colour.ts)\<close>

text \<open>A JavaScript string is its sequence of UTF-16 code units.\<close>

type_synonym jsstring = "16 word list"

definition NEW_LINE_NUMBERS :: "nat list" where
  "NEW_LINE_NUMBERS = [10, 13]"

definition replaceCharCode :: "nat \<Rightarrow> bool" where
  "replaceCharCode charCode \<longleftrightarrow>
     (charCode < 32 \<and> charCode \<notin> set NEW_LINE_NUMBERS)
     \<or> (charCode \<ge> 128 \<and> charCode \<le> 157)"

text \<open>\<^verbatim>\<open>content.charCodeAt(i)\<close>, read only for \<open>i\<close> below the length.\<close>

definition charCodeAt :: "jsstring \<Rightarrow> nat \<Rightarrow> nat" where
  "charCodeAt content i = unat (content ! i)"

text \<open>The loop of \<^verbatim>\<open>replaceInvalidCharacters\<close>; 32 is the space written to \<^verbatim>\<open>chars[i]\<close>.\<close>

function replaceLoop :: "jsstring \<Rightarrow> nat \<Rightarrow> jsstring \<Rightarrow> jsstring" where
  "replaceLoop content i chars =
     (if i < length content
      then replaceLoop content (Suc i)
             (if replaceCharCode (charCodeAt content i) then chars[i := 32] else chars)
      else chars)"
  by pat_completeness auto
termination
  by (relation "measure (\<lambda>(content, i, chars). length content - i)") auto

text \<open>\<^verbatim>\<open>content.split(``)\<close> gives one element per code unit and \<^verbatim>\<open>chars.join(``)\<close> puts
  them back together.\<close>

definition replaceInvalidCharacters :: "jsstring \<Rightarrow> jsstring" where
  "replaceInvalidCharacters content = replaceLoop content 0 content"

section \<open>The /connect URI handler (src/uri/index.ts)\<close>

text \<open>A value of the parsed query: a string, or an array of strings for a repeated key.
  \<open>None\<close> is \<^verbatim>\<open>undefined\<close>.\<close>

datatype qvalue = QString string | QArray "string list"

fun joinComma :: "string list \<Rightarrow> string" where
  "joinComma [] = []"
| "joinComma [x] = x"
| "joinComma (x # y # ys) = x @ '','' @ joinComma (y # ys)"

text \<open>\<^verbatim>\<open>String(v)\<close> and the truth of \<open>v\<close> as a condition.\<close>

definition String_of :: "qvalue option \<Rightarrow> string" where
  "String_of v =
     (case v of
        None \<Rightarrow> ''undefined''
      | Some (QString s) \<Rightarrow> s
      | Some (QArray xs) \<Rightarrow> joinComma xs)"

definition truthyQuery :: "qvalue option \<Rightarrow> bool" where
  "truthyQuery v =
     (case v of
        None \<Rightarrow> False
      | Some (QString s) \<Rightarrow> s \<noteq> []
      | Some (QArray xs) \<Rightarrow> True)"

text \<open>\<^verbatim>\<open>s.split(sep)\<close> for a separator of one character.\<close>

fun splitOn :: "char \<Rightarrow> string \<Rightarrow> string list" where
  "splitOn sep [] = [[]]"
| "splitOn sep (c # cs) =
     (if c = sep then [] # splitOn sep cs
      else (case splitOn sep cs of
              [] \<Rightarrow> [[c]]
            | part # parts \<Rightarrow> (c # part) # parts))"

text \<open>The port is the literal 22 or \<^verbatim>\<open>Number(serverParts[1])\<close>, which is kept as written.\<close>

datatype jsnumber = Literal nat | Number string

record ConnectionData =
  host :: string
  name :: string
  username :: string
  password :: "string option"
  port :: jsnumber

text \<open>The persisted list \<^verbatim>\<open>GlobalConfiguration.get(`connections`)\<close> and the secret
  storage of the extension.\<close>

record Stores =
  connections :: "ConnectionData list option"
  secrets :: "(string \<times> string) list"

definition secrets_store ::
  "string \<Rightarrow> string \<Rightarrow> (string \<times> string) list \<Rightarrow> (string \<times> string) list" where
  "secrets_store key v kvs = (key, v) # filter (\<lambda>kv. fst kv \<noteq> key) kvs"

text \<open>
  What the handler meets: whether a connection is active, the query as
  \<^verbatim>\<open>querystring.parse\<close> returns it, the answers to the two input boxes, the string the
  base64 decoding of \<^verbatim>\<open>pass\<close> yields, and whether \<^verbatim>\<open>code-for-ibmi.connectDirect\<close>
  reports success.
\<close>

record HandlerEnv =
  activeConnection :: bool
  queryData :: "(string \<times> qvalue) list"
  userInput :: "string option"
  passInput :: "string option"
  decodedPass :: string
  connectionResult :: bool

datatype uri_effect =
    ShowInputBox string
  | ConnectDirect ConnectionData
  | InitialSandboxSetup string
  | ShowInformationMessage string string
  | ShowNoPassword string

text \<open>Lines 65 to 81, entered when \<^verbatim>\<open>save\<close> holds.\<close>

definition saveConnection :: "ConnectionData \<Rightarrow> string \<Rightarrow> string \<Rightarrow> Stores \<Rightarrow> Stores" where
  "saveConnection connectionData h pass stores =
     (case connections stores of
        None \<Rightarrow> stores
      | Some existingConnections \<Rightarrow>
          (case find (\<lambda>item. name item = h) existingConnections of
             Some existingConnection \<Rightarrow> stores
           | None \<Rightarrow>
               stores \<lparr> connections :=
                          Some (existingConnections @ [connectionData \<lparr> password := None \<rparr>]),
                        secrets := secrets_store (h @ ''_password'') pass (secrets stores) \<rparr>))"

definition handleUri :: "HandlerEnv \<Rightarrow> Uri \<Rightarrow> Stores \<Rightarrow> uri_effect list \<times> Stores" where
  "handleUri env u stores =
     (if path u = ''/connect'' then
        if \<not> activeConnection env then
          let save = (map_of (queryData env) ''save'' = Some (QString ''true''));
              serverName = String_of (map_of (queryData env) ''server'');
              user0 = map_of (queryData env) ''user'';
              pass0 = map_of (queryData env) ''pass''
          in if serverName \<noteq> [] then
               let (user, asked1) =
                     (if \<not> truthyQuery user0
                      then (map_option QString (userInput env),
                            [ShowInputBox ''sandbox.input.user.title''])
                      else (user0, []));
                   (pass, asked2) =
                     (if truthyQuery pass0 then (Some (decodedPass env), [])
                      else (passInput env, [ShowInputBox ''sandbox.input.password.title'']))
               in (case pass of
                     Some passString \<Rightarrow>
                       if truthyQuery user \<and> passString \<noteq> [] then
                         let serverParts = splitOn CHR '':'' serverName;
                             h = hd serverParts;
                             p = (if length serverParts = 2 then Number (serverParts ! 1)
                                  else Literal 22);
                             connectionData =
                               \<lparr> host = h, name = String_of user @ ''-'' @ h,
                                 username = String_of user, password = Some passString,
                                 port = p \<rparr>
                         in if connectionResult env then
                              (asked1 @ asked2 @
                                 [ConnectDirect connectionData,
                                  InitialSandboxSetup (username connectionData)],
                               if save then saveConnection connectionData h passString stores
                               else stores)
                            else
                              (asked1 @ asked2 @
                                 [ConnectDirect connectionData,
                                  ShowInformationMessage ''sandbox.failedToConnect.title''
                                    ''sandbox.failedToConnect''],
                               stores)
                       else (asked1 @ asked2 @ [ShowNoPassword serverName], stores)
                   | None \<Rightarrow> (asked1 @ asked2 @ [ShowNoPassword serverName], stores))
             else ([], stores)
        else ([ShowInformationMessage ''sandbox.failedToConnect.title''
                 ''sandbox.alreadyConnected''], stores)
      else ([], stores))"

chapter \<open>Properties\<close>

section \<open>ConfigFile\<close>

text \<open>Cached server data that is truthy is what \<^verbatim>\<open>get\<close> returns, whatever the workspace
  holds.\<close>

lemma get_cached_server_data:
  "truthy (serverData this) \<Longrightarrow> get ws cur this = (Inr (serverData this), this)"
  by (simp add: get_def)

lemma combine_not_cached:
  "\<not> truthy sd \<Longrightarrow> combine m workspaceConfig sd =
     Inr (if truthy workspaceConfig then workspaceConfig else sd)"
  by (auto simp: combine_def split: option.splits)

text \<open>Reading the workspace changes only the load state, and what it reads does not
  depend on the object.\<close>

lemma readConfigFiles_fields:
  "serverData (snd (readConfigFiles files (w, this))) = serverData this
   \<and> mergeArrays (snd (readConfigFiles files (w, this))) = mergeArrays this
   \<and> validateAndCleanInPlace (snd (readConfigFiles files (w, this))) = validateAndCleanInPlace this"
  by (induction files arbitrary: w this)
     (auto simp: set_server_def set_workspace_def split: sum.splits)

lemma readConfigFiles_config:
  "fst (readConfigFiles files (w, this)) = fst (readConfigFiles files (w, that))"
proof (induction files arbitrary: w this that)
  case Nil
  show ?case by simp
next
  case (Cons content files)
  show ?case
  proof (cases "JSON_parse content")
    case (Inl e)
    have "fst (readConfigFiles (content # files) (w, this)) =
          fst (readConfigFiles files (w, set_server failed_to_parse this))"
      using Inl by simp
    also have "\<dots> = fst (readConfigFiles files (w, set_server failed_to_parse that))"
      by (rule Cons.IH)
    also have "\<dots> = fst (readConfigFiles (content # files) (w, that))"
      using Inl by simp
    finally show ?thesis .
  next
    case (Inr v)
    have "fst (readConfigFiles (content # files) (w, this)) =
          fst (readConfigFiles files (Some v, set_workspace ok this))"
      using Inr by simp
    also have "\<dots> = fst (readConfigFiles files (Some v, set_workspace ok that))"
      by (rule Cons.IH)
    also have "\<dots> = fst (readConfigFiles (content # files) (w, that))"
      using Inr by simp
    finally show ?thesis .
  qed
qed

lemma readWorkspaceConfig_fields:
  "serverData (snd (readWorkspaceConfig ws cur this)) = serverData this
   \<and> mergeArrays (snd (readWorkspaceConfig ws cur this)) = mergeArrays this
   \<and> validateAndCleanInPlace (snd (readWorkspaceConfig ws cur this))
       = validateAndCleanInPlace this"
  using readConfigFiles_fields [of _ None "set_server no_exist this"]
  by (simp add: readWorkspaceConfig_def set_server_def split: option.splits)

lemma readWorkspaceConfig_mergeArrays:
  "fst (readWorkspaceConfig ws cur (this \<lparr> mergeArrays := m \<rparr>))
     = fst (readWorkspaceConfig ws cur this)"
proof (cases "workspaceFolders ws")
  case None
  then show ?thesis by (simp add: readWorkspaceConfig_def)
next
  case (Some folders)
  show ?thesis
  proof (cases cur)
    case None
    then show ?thesis using Some by (simp add: readWorkspaceConfig_def)
  next
    case (Some folder)
    then show ?thesis
      using \<open>workspaceFolders ws = Some folders\<close>
      by (simp add: readWorkspaceConfig_def) (rule readConfigFiles_config)
  qed
qed

text \<open>The flag \<^verbatim>\<open>mergeArrays\<close> has no effect on what \<^verbatim>\<open>get\<close> returns: where the merge
  would run, line 60 has returned.\<close>

lemma get_ignores_mergeArrays:
  "fst (get ws cur (this \<lparr> mergeArrays := m \<rparr>)) = fst (get ws cur this)"
proof (cases "truthy (serverData this)")
  case True
  then show ?thesis by (simp add: get_def)
next
  case False
  obtain w1 t1 where r1: "readWorkspaceConfig ws cur this = (w1, t1)"
    by fastforce
  obtain w2 t2 where r2: "readWorkspaceConfig ws cur (this \<lparr> mergeArrays := m \<rparr>) = (w2, t2)"
    by fastforce
  have w: "w2 = w1"
    using readWorkspaceConfig_mergeArrays [where ws = ws and cur = cur and this = this and m = m] r1 r2 by simp
  have f1: "serverData t1 = serverData this"
    "validateAndCleanInPlace t1 = validateAndCleanInPlace this"
    using readWorkspaceConfig_fields [of ws cur this] r1 by simp_all
  have f2: "serverData t2 = serverData this"
    "validateAndCleanInPlace t2 = validateAndCleanInPlace this"
    using readWorkspaceConfig_fields [of ws cur "this \<lparr> mergeArrays := m \<rparr>"] r2 by simp_all
  show ?thesis
    using False
    by (simp add: get_def r1 r2 w f1 f2 combine_not_cached split: option.splits sum.splits)
qed

text \<open>What lines 86 to 94 compute for two documents that share one array-valued key: the
  concatenation itself, not a document that holds it.\<close>

lemma combine_single_key:
  "index_of_key K = None \<Longrightarrow>
   combine True (Some (JObject [(K, JArray ws)])) (Some (JObject [(K, JArray ss)]))
     = Inr (Some (JArray (ws @ ss)))"
  by (simp add: combine_def forInKeys_def getProp_def isArray_def spread_def List.map_filter_def)

text \<open>
  Claim C1. With \<^verbatim>\<open>mergeArrays\<close> off, the server file holding \<^verbatim>\<open>{"a":1}\<close> loaded by
  \<^verbatim>\<open>loadFromServer\<close> and a workspace file holding \<^verbatim>\<open>{"b":2}\<close>, \<^verbatim>\<open>get\<close> returns the
  server document: line 60 returns the cached server data before the workspace is looked
  at, so the workspace document does not override it.
\<close>

theorem C1_get_returns_server_document:
  "fst (get (oneFolder [Parsable (JObject [(''b'', JNumber 2)])]) (Some ''project'')
         (snd (loadFromServer
                 (map_of [(''/etc/.vscode/config.json'', Parsable (JObject [(''a'', JNumber 1)]))])
                 ((new_ConfigFile ''config'') \<lparr> hasServerFile := True \<rparr>))))
   = Inr (Some (JObject [(''a'', JNumber 1)]))"
  by (simp add: get_def loadFromServer_def new_ConfigFile_def SERVER_ROOT_def set_server_def
        JSON_parse_def)

text \<open>
  Claim C2. With \<^verbatim>\<open>mergeArrays\<close> on, the server file holding \<^verbatim>\<open>{"K":[2]}\<close> and a
  workspace file holding \<^verbatim>\<open>{"K":[1]}\<close>, \<^verbatim>\<open>get\<close> returns the server document, whose
  \<^verbatim>\<open>K\<close> is \<^verbatim>\<open>[2]\<close> and not \<^verbatim>\<open>[1,2]\<close>: the same early return keeps the merge of
  lines 86 to 94 from running.
\<close>

theorem C2_get_returns_server_array:
  "fst (get (oneFolder [Parsable (JObject [(''K'', JArray [JNumber 1])])]) (Some ''project'')
         (snd (loadFromServer
                 (map_of [(''/etc/.vscode/config.json'',
                           Parsable (JObject [(''K'', JArray [JNumber 2])]))])
                 ((new_ConfigFile ''config'') \<lparr> hasServerFile := True, mergeArrays := True \<rparr>))))
   = Inr (Some (JObject [(''K'', JArray [JNumber 2])]))"
  by (simp add: get_def loadFromServer_def new_ConfigFile_def SERVER_ROOT_def set_server_def
        JSON_parse_def)

text \<open>
  Claim C3 as stated fails: with \<^verbatim>\<open>{"a":1}\<close> cached from an earlier load and no
  validator, a server file that does not parse leaves the state \<^verbatim>\<open>failed_to_parse\<close> and
  the cached data \<^verbatim>\<open>undefined\<close>.
\<close>

theorem C3_counterexample:
  "serverData (snd (loadFromServer (map_of [(''/etc/.vscode/config.json'', Unparsable)])
       ((new_ConfigFile ''config'')
          \<lparr> serverData := Some (JObject [(''a'', JNumber 1)]), hasServerFile := True \<rparr>)))
     = None
   \<and> server (getState (snd (loadFromServer (map_of [(''/etc/.vscode/config.json'', Unparsable)])
       ((new_ConfigFile ''config'')
          \<lparr> serverData := Some (JObject [(''a'', JNumber 1)]), hasServerFile := True \<rparr>))))
     = failed_to_parse"
  by (simp add: loadFromServer_def new_ConfigFile_def SERVER_ROOT_def set_server_def
        JSON_parse_def getState_def)

text \<open>
  Claim C3, amended. When the server file exists and its body does not parse,
  \<^verbatim>\<open>loadFromServer\<close> records \<^verbatim>\<open>failed_to_parse\<close> for the server; if the call returns,
  the cached server data is \<^verbatim>\<open>undefined\<close> afterwards, and it is the data cached before
  only if the validator throws. Without a validator the call returns.
\<close>

theorem C3_loadFromServer_parse_failure:
  assumes "hasServerFile this"
      and "remote (serverFile this) = Some content"
      and "JSON_parse content = Inl e"
  shows "server (getState (snd (loadFromServer remote this))) = failed_to_parse
         \<and> (case fst (loadFromServer remote this) of
               Inr u \<Rightarrow> serverData (snd (loadFromServer remote this)) = None
             | Inl thrown \<Rightarrow> serverData (snd (loadFromServer remote this)) = serverData this)
         \<and> (validateAndCleanInPlace this = None \<longrightarrow> fst (loadFromServer remote this) = Inr ())"
  using assms
  by (auto simp: loadFromServer_def set_server_def getState_def afterCleaning_def Let_def
        split: option.splits sum.splits)

text \<open>The theorem at the input of the counterexample, and with a validator that throws.\<close>

theorem C3_loadFromServer_parse_failure_witness:
  "hasServerFile ((new_ConfigFile ''config'')
      \<lparr> serverData := Some (JObject [(''a'', JNumber 1)]), hasServerFile := True \<rparr>)
   \<and> map_of [(''/etc/.vscode/config.json'', Unparsable)]
       (serverFile ((new_ConfigFile ''config'')
          \<lparr> serverData := Some (JObject [(''a'', JNumber 1)]), hasServerFile := True \<rparr>))
     = Some Unparsable
   \<and> JSON_parse Unparsable = Inl SyntaxError
   \<and> loadFromServer (map_of [(''/etc/.vscode/config.json'', Unparsable)])
       ((new_ConfigFile ''config'')
          \<lparr> serverData := Some (JObject [(''a'', JNumber 1)]), hasServerFile := True \<rparr>)
     = (Inr (),
        (new_ConfigFile ''config'')
          \<lparr> state := \<lparr> workspace = not_loaded, server = failed_to_parse \<rparr>,
            serverData := None, hasServerFile := True \<rparr>)
   \<and> serverData (snd (loadFromServer (map_of [(''/etc/.vscode/config.json'', Unparsable)])
       ((new_ConfigFile ''config'')
          \<lparr> serverData := Some (JObject [(''a'', JNumber 1)]), hasServerFile := True,
            validateAndCleanInPlace := Some (\<lambda>v. Inl (ValidationError ''invalid'')) \<rparr>)))
     = Some (JObject [(''a'', JNumber 1)])"
  using C3_loadFromServer_parse_failure [of
      "(new_ConfigFile ''config'')
         \<lparr> serverData := Some (JObject [(''a'', JNumber 1)]), hasServerFile := True \<rparr>"
      "map_of [(''/etc/.vscode/config.json'', Unparsable)]" Unparsable SyntaxError]
  by (simp add: loadFromServer_def new_ConfigFile_def SERVER_ROOT_def set_server_def
        JSON_parse_def getState_def)

text \<open>
  Claim C4. A new \<^verbatim>\<open>ConfigFile\<close> with a server file whose body does not parse has the
  server state \<^verbatim>\<open>failed_to_parse\<close> after \<^verbatim>\<open>loadFromServer\<close>. \<^verbatim>\<open>get\<close> for a workspace
  folder that holds no configuration file then returns \<^verbatim>\<open>undefined\<close>, but line 69 has
  set the server state to \<^verbatim>\<open>no_exist\<close>; only a \<^verbatim>\<open>get\<close> without a workspace folder
  leaves it \<^verbatim>\<open>failed_to_parse\<close>.
\<close>

theorem C4_get_overwrites_server_state:
  "server (getState (snd (loadFromServer (map_of [(''/etc/.vscode/config.json'', Unparsable)])
       ((new_ConfigFile ''config'') \<lparr> hasServerFile := True \<rparr>)))) = failed_to_parse
   \<and> fst (get (oneFolder []) (Some ''project'')
       (snd (loadFromServer (map_of [(''/etc/.vscode/config.json'', Unparsable)])
          ((new_ConfigFile ''config'') \<lparr> hasServerFile := True \<rparr>)))) = Inr None
   \<and> server (getState (snd (get (oneFolder []) (Some ''project'')
       (snd (loadFromServer (map_of [(''/etc/.vscode/config.json'', Unparsable)])
          ((new_ConfigFile ''config'') \<lparr> hasServerFile := True \<rparr>)))))) = no_exist
   \<and> server (getState (snd (get noFolder None
       (snd (loadFromServer (map_of [(''/etc/.vscode/config.json'', Unparsable)])
          ((new_ConfigFile ''config'') \<lparr> hasServerFile := True \<rparr>)))))) = failed_to_parse"
  by (simp add: get_def readWorkspaceConfig_def loadFromServer_def new_ConfigFile_def
        SERVER_ROOT_def set_server_def JSON_parse_def getState_def oneFolder_def noFolder_def)

section \<open>Resource URIs\<close>

lemma split_at_colon:
  assumes "CHR '':'' \<notin> set s" "CHR '':'' \<notin> set t" "s @ '':'' @ p = t @ '':'' @ q"
  shows "s = t \<and> p = q"
proof -
  have s: "\<And>x. x \<in> set s \<Longrightarrow> x \<noteq> CHR '':''" using assms(1) by auto
  have t: "\<And>x. x \<in> set t \<Longrightarrow> x \<noteq> CHR '':''" using assms(2) by auto
  have "takeWhile (\<lambda>c. c \<noteq> CHR '':'') (s @ '':'' @ p) = s"
    by (simp add: takeWhile_append2 [of s, OF s])
  moreover have "takeWhile (\<lambda>c. c \<noteq> CHR '':'') (t @ '':'' @ q) = t"
    by (simp add: takeWhile_append2 [of t, OF t])
  ultimately have "s = t" using assms(3) by simp
  with assms(3) show ?thesis by simp
qed

lemma uriString_normalizedPath:
  "isCaseSensitive u \<or> lowersByParts L u \<Longrightarrow>
   uriStringWithoutFragment L u = scheme u @ '':'' @ normalizedPath L u"
  by (auto simp: uriStringWithoutFragment_def normalizedPath_def lowersByParts_def)

lemma areEquivalentUris_iff:
  assumes "CHR '':'' \<notin> set (scheme a)" and "CHR '':'' \<notin> set (scheme b)"
      and a: "isCaseSensitive a \<or> lowersByParts L a"
      and b: "isCaseSensitive b \<or> lowersByParts L b"
  shows "areEquivalentUris L a b \<longleftrightarrow>
           scheme a = scheme b \<and> normalizedPath L a = normalizedPath L b"
  unfolding areEquivalentUris_def uriString_normalizedPath [OF a] uriString_normalizedPath [OF b]
  using split_at_colon [OF assms(1) assms(2)] by auto

lemma isResourceScheme_colon: "isResourceScheme s \<Longrightarrow> CHR '':'' \<notin> set s"
  by (auto simp: isResourceScheme_def)

lemma areEquivalentUris_query_fragment:
  "areEquivalentUris L (a \<lparr> query := q, fragment := f \<rparr>) a"
  by (simp add: areEquivalentUris_def uriStringWithoutFragment_def isCaseSensitive_def)

text \<open>
  Claim C5. Take two URIs with resource schemes, each of them case-sensitive or lowered
  part by part by \<^verbatim>\<open>toLowerCase\<close>. Then \<^verbatim>\<open>areEquivalentUris\<close> holds exactly when the
  schemes are equal and the normalized paths are equal. Query (with the read-only flag)
  and fragment play no part. Two stream files under \<^verbatim>\<open>/QOpenSys\<close> are equivalent only
  when their paths are equal as they are; two URIs that are not case-sensitive are
  equivalent when the schemes are equal and the paths are equal in lower case.
\<close>

theorem C5_areEquivalentUris:
  assumes "isResourceScheme (scheme a)" and "isResourceScheme (scheme b)"
      and "isCaseSensitive a \<or> lowersByParts toLowerCase a"
      and "isCaseSensitive b \<or> lowersByParts toLowerCase b"
  shows "(areEquivalentUris toLowerCase a b \<longleftrightarrow>
            scheme a = scheme b \<and> normalizedPath toLowerCase a = normalizedPath toLowerCase b)
         \<and> areEquivalentUris toLowerCase (a \<lparr> query := q, fragment := f \<rparr>) a
         \<and> (isCaseSensitive a \<and> isCaseSensitive b \<longrightarrow>
              (areEquivalentUris toLowerCase a b \<longleftrightarrow> path a = path b))
         \<and> (\<not> isCaseSensitive a \<and> \<not> isCaseSensitive b \<longrightarrow>
              (areEquivalentUris toLowerCase a b \<longleftrightarrow>
                 scheme a = scheme b \<and> toLowerCase (path a) = toLowerCase (path b)))"
proof -
  have iff: "areEquivalentUris toLowerCase a b \<longleftrightarrow>
      scheme a = scheme b \<and> normalizedPath toLowerCase a = normalizedPath toLowerCase b"
    using assms isResourceScheme_colon areEquivalentUris_iff by blast
  show ?thesis
    using iff areEquivalentUris_query_fragment
    by (auto simp: normalizedPath_def isCaseSensitive_def)
qed

text \<open>
  The theorem at two stream files outside \<^verbatim>\<open>/QOpenSys\<close> that differ in case (the capital
  E with acute accent, code C9, against the small one, code E9, among the letters), in
  query and in fragment, and at two under \<^verbatim>\<open>/QOpenSys\<close> that differ in case. The table
  lists what \<^verbatim>\<open>toLowerCase\<close> does to the capitals that occur.
\<close>

theorem C5_areEquivalentUris_witness:
  "isResourceScheme ''streamfile''
   \<and> lowersByParts
       (caseTable [(CHR ''U'', CHR ''u''), (CHR ''S'', CHR ''s''), (CHR ''E'', CHR ''e''),
                   (CHR ''R'', CHR ''r''), (CHR ''T'', CHR ''t''), (CHR ''X'', CHR ''x''),
                   (CHR 0xC9, CHR 0xE9)])
       \<lparr> scheme = ''streamfile'', authority = [], path = ''/home/USER/'' @ [CHR 0xC9] @ ''.txt'',
         query = ''readonly=true'', fragment = ''L1'' \<rparr>
   \<and> areEquivalentUris
       (caseTable [(CHR ''U'', CHR ''u''), (CHR ''S'', CHR ''s''), (CHR ''E'', CHR ''e''),
                   (CHR ''R'', CHR ''r''), (CHR ''T'', CHR ''t''), (CHR ''X'', CHR ''x''),
                   (CHR 0xC9, CHR 0xE9)])
       \<lparr> scheme = ''streamfile'', authority = [], path = ''/home/USER/'' @ [CHR 0xC9] @ ''.txt'',
         query = ''readonly=true'', fragment = ''L1'' \<rparr>
       \<lparr> scheme = ''streamfile'', authority = [], path = ''/home/user/'' @ [CHR 0xE9] @ ''.TXT'',
         query = [], fragment = [] \<rparr>
   \<and> isCaseSensitive
       \<lparr> scheme = ''streamfile'', authority = [], path = ''/QOpenSys/home/a.txt'',
         query = [], fragment = [] \<rparr>
   \<and> \<not> areEquivalentUris
       (caseTable [(CHR ''U'', CHR ''u''), (CHR ''S'', CHR ''s''), (CHR ''E'', CHR ''e''),
                   (CHR ''R'', CHR ''r''), (CHR ''T'', CHR ''t''), (CHR ''X'', CHR ''x''),
                   (CHR 0xC9, CHR 0xE9)])
       \<lparr> scheme = ''streamfile'', authority = [], path = ''/QOpenSys/home/a.txt'',
         query = [], fragment = [] \<rparr>
       \<lparr> scheme = ''streamfile'', authority = [], path = ''/qopensys/home/A.txt'',
         query = [], fragment = [] \<rparr>"
  using C5_areEquivalentUris [of
       "\<lparr> scheme = ''streamfile'', authority = [], path = ''/home/USER/'' @ [CHR 0xC9] @ ''.txt'',
         query = ''readonly=true'', fragment = ''L1'' \<rparr>"
       "\<lparr> scheme = ''streamfile'', authority = [], path = ''/home/user/'' @ [CHR 0xE9] @ ''.TXT'',
         query = [], fragment = [] \<rparr>"
       "caseTable [(CHR ''U'', CHR ''u''), (CHR ''S'', CHR ''s''), (CHR ''E'', CHR ''e''),
                   (CHR ''R'', CHR ''r''), (CHR ''T'', CHR ''t''), (CHR ''X'', CHR ''x''),
                   (CHR 0xC9, CHR 0xE9)]"]
     C5_areEquivalentUris [of
       "\<lparr> scheme = ''streamfile'', authority = [], path = ''/QOpenSys/home/a.txt'',
         query = [], fragment = [] \<rparr>"
       "\<lparr> scheme = ''streamfile'', authority = [], path = ''/qopensys/home/A.txt'',
         query = [], fragment = [] \<rparr>"
       "caseTable [(CHR ''U'', CHR ''u''), (CHR ''S'', CHR ''s''), (CHR ''E'', CHR ''e''),
                   (CHR ''R'', CHR ''r''), (CHR ''T'', CHR ''t''), (CHR ''X'', CHR ''x''),
                   (CHR 0xC9, CHR 0xE9)]"]
  by (simp add: isResourceScheme_def normalizedPath_def isCaseSensitive_def testQOpenSys_def
        matchesIgnoringCase_def isAsciiLetter_def lowersByParts_def caseTable_def)

section \<open>Disconnecting\<close>

lemma disconnectLoop_declined:
  "disconnectLoop user docs False trace = (False, trace)"
  by (induction docs) auto

lemma disconnectLoop_clean:
  "filter unsavedRemote docs = [] \<Longrightarrow> disconnectLoop user docs d trace = (d, trace)"
  by (induction docs) (auto simp: unsavedRemote_def split: if_splits)

lemma disconnectLoop_first:
  "filter unsavedRemote docs = d0 # ds \<Longrightarrow>
   disconnectLoop user docs True trace =
     (truthyString (user (prompts trace) d0), trace @ promptFor d0)"
proof (induction docs)
  case Nil
  then show ?case by simp
next
  case (Cons document rest)
  show ?case
  proof (cases "unsavedRemote document")
    case True
    then have "d0 = document" using Cons.prems by simp
    then show ?thesis
      using True by (simp add: unsavedRemote_def disconnectLoop_declined)
  next
    case False
    then have "filter unsavedRemote rest = d0 # ds" using Cons.prems by simp
    then have "disconnectLoop user rest True trace =
         (truthyString (user (prompts trace) d0), trace @ promptFor d0)"
      by (rule Cons.IH)
    then show ?thesis using False by (auto simp: unsavedRemote_def)
  qed
qed

lemma prompts_promptFor: "prompts (promptFor d) = 1"
  by (simp add: prompts_def promptFor_def)

lemma prompts_append: "prompts (xs @ ys) = prompts xs + prompts ys"
  by (simp add: prompts_def)

text \<open>
  Claim C6. When some open document of the schemes member, streamfile or object has
  unsaved changes, \<^verbatim>\<open>disconnect\<close> shows the first such document and asks once. The value
  returned is the answer: with \<^verbatim>\<open>Disconnect anyway\<close> the connection, if there is one, is
  ended; with any other answer nothing follows the question and \<^verbatim>\<open>connection.end()\<close> is
  not called.
\<close>

theorem C6_disconnect:
  assumes "\<exists>document \<in> set textDocuments. unsavedRemote document"
  shows "let d0 = hd (filter unsavedRemote textDocuments);
             accepted = truthyString (user 0 d0);
             (doDisconnect, trace) = disconnect user hasConnection textDocuments
         in prompts trace = 1
            \<and> doDisconnect = accepted
            \<and> trace = promptFor d0 @ (if accepted \<and> hasConnection then [ConnectionEnd] else [])
            \<and> (ConnectionEnd \<in> set trace \<longleftrightarrow> accepted \<and> hasConnection)"
proof -
  from assms have "filter unsavedRemote textDocuments \<noteq> []"
    by (simp add: filter_empty_conv)
  then obtain d0 ds where f: "filter unsavedRemote textDocuments = d0 # ds"
    by (cases "filter unsavedRemote textDocuments") auto
  have "disconnectLoop user textDocuments True [] = (truthyString (user 0 d0), promptFor d0)"
    using disconnectLoop_first [OF f, of user "[]"] by (simp add: prompts_def)
  then show ?thesis
    using f by (simp add: disconnect_def Let_def prompts_append prompts_promptFor)
      (simp add: promptFor_def prompts_def)
qed

text \<open>The theorem at a saved member, an unsaved member and an unsaved stream file, for a
  user who dismisses the message and for one who chooses to disconnect.\<close>

theorem C6_disconnect_witness:
  "unsavedRemote
     \<lparr> uri = \<lparr> scheme = ''member'', authority = [], path = ''/LIB/QRPGLESRC/B.RPGLE'',
               query = [], fragment = [] \<rparr>, isClosed = False, isDirty = True \<rparr>
   \<and> disconnect (\<lambda>n document. None) True
       [\<lparr> uri = \<lparr> scheme = ''member'', authority = [], path = ''/LIB/QRPGLESRC/A.RPGLE'',
                  query = [], fragment = [] \<rparr>, isClosed = False, isDirty = False \<rparr>,
        \<lparr> uri = \<lparr> scheme = ''member'', authority = [], path = ''/LIB/QRPGLESRC/B.RPGLE'',
                  query = [], fragment = [] \<rparr>, isClosed = False, isDirty = True \<rparr>,
        \<lparr> uri = \<lparr> scheme = ''streamfile'', authority = [], path = ''/home/me/c.txt'',
                  query = [], fragment = [] \<rparr>, isClosed = False, isDirty = True \<rparr>]
     = (False,
        promptFor
          \<lparr> uri = \<lparr> scheme = ''member'', authority = [], path = ''/LIB/QRPGLESRC/B.RPGLE'',
                    query = [], fragment = [] \<rparr>, isClosed = False, isDirty = True \<rparr>)
   \<and> disconnect (\<lambda>n document. Some ''Disconnect anyway'') True
       [\<lparr> uri = \<lparr> scheme = ''member'', authority = [], path = ''/LIB/QRPGLESRC/A.RPGLE'',
                  query = [], fragment = [] \<rparr>, isClosed = False, isDirty = False \<rparr>,
        \<lparr> uri = \<lparr> scheme = ''member'', authority = [], path = ''/LIB/QRPGLESRC/B.RPGLE'',
                  query = [], fragment = [] \<rparr>, isClosed = False, isDirty = True \<rparr>,
        \<lparr> uri = \<lparr> scheme = ''streamfile'', authority = [], path = ''/home/me/c.txt'',
                  query = [], fragment = [] \<rparr>, isClosed = False, isDirty = True \<rparr>]
     = (True,
        promptFor
          \<lparr> uri = \<lparr> scheme = ''member'', authority = [], path = ''/LIB/QRPGLESRC/B.RPGLE'',
                    query = [], fragment = [] \<rparr>, isClosed = False, isDirty = True \<rparr>
        @ [ConnectionEnd])"
  using
    C6_disconnect [of
       "[\<lparr> uri = \<lparr> scheme = ''member'', authority = [], path = ''/LIB/QRPGLESRC/A.RPGLE'',
                  query = [], fragment = [] \<rparr>, isClosed = False, isDirty = False \<rparr>,
        \<lparr> uri = \<lparr> scheme = ''member'', authority = [], path = ''/LIB/QRPGLESRC/B.RPGLE'',
                  query = [], fragment = [] \<rparr>, isClosed = False, isDirty = True \<rparr>,
        \<lparr> uri = \<lparr> scheme = ''streamfile'', authority = [], path = ''/home/me/c.txt'',
                  query = [], fragment = [] \<rparr>, isClosed = False, isDirty = True \<rparr>]"
       "\<lambda>n document. None" True]
    C6_disconnect [of
       "[\<lparr> uri = \<lparr> scheme = ''member'', authority = [], path = ''/LIB/QRPGLESRC/A.RPGLE'',
                  query = [], fragment = [] \<rparr>, isClosed = False, isDirty = False \<rparr>,
        \<lparr> uri = \<lparr> scheme = ''member'', authority = [], path = ''/LIB/QRPGLESRC/B.RPGLE'',
                  query = [], fragment = [] \<rparr>, isClosed = False, isDirty = True \<rparr>,
        \<lparr> uri = \<lparr> scheme = ''streamfile'', authority = [], path = ''/home/me/c.txt'',
                  query = [], fragment = [] \<rparr>, isClosed = False, isDirty = True \<rparr>]"
       "\<lambda>n document. Some ''Disconnect anyway''" True]
  by (simp add: unsavedRemote_def truthyString_def split: prod.splits)

section \<open>After the disconnection\<close>

lemma hide_all: "fold hide [disconnectBarItem, connectedBarItem, terminalBarItem, actionsBarItem] v = []"
proof -
  have "set (fold hide [disconnectBarItem, connectedBarItem, terminalBarItem, actionsBarItem] v) = {}"
  proof -
    have "x \<in> {disconnectBarItem, connectedBarItem, terminalBarItem, actionsBarItem}" for x
      by (cases x) auto
    then show ?thesis by (auto simp: hide_def)
  qed
  then show ?thesis by simp
qed

text \<open>
  Claim C7 as stated fails: a member tab without unsaved changes that shares its group
  with an unsaved local file stays open.
\<close>

theorem C7_counterexample:
  "openTabs (onDisconnected
     \<lparr> tabGroups =
         [[\<lparr> tab_label = ''QRPGLESRC/A.RPGLE'',
             tab_input = TabInputText \<lparr> scheme = ''member'', authority = [],
               path = ''/LIB/QRPGLESRC/A.RPGLE'', query = [], fragment = [] \<rparr>,
             tab_isDirty = False \<rparr>,
           \<lparr> tab_label = ''notes.txt'',
             tab_input = TabInputText \<lparr> scheme = ''file'', authority = [],
               path = ''/home/me/notes.txt'', query = [], fragment = [] \<rparr>,
             tab_isDirty = True \<rparr>]],
       visibleBarItems = [disconnectBarItem, connectedBarItem] \<rparr>)
   = [\<lparr> tab_label = ''QRPGLESRC/A.RPGLE'',
             tab_input = TabInputText \<lparr> scheme = ''member'', authority = [],
               path = ''/LIB/QRPGLESRC/A.RPGLE'', query = [], fragment = [] \<rparr>,
             tab_isDirty = False \<rparr>,
           \<lparr> tab_label = ''notes.txt'',
             tab_input = TabInputText \<lparr> scheme = ''file'', authority = [],
               path = ''/home/me/notes.txt'', query = [], fragment = [] \<rparr>,
             tab_isDirty = True \<rparr>]"
  by (simp add: openTabs_def onDisconnected_def)

text \<open>
  Claim C7, amended. \<^verbatim>\<open>onDisconnected\<close> keeps the groups and their order. A group with
  a dirty tab is left as it is; in a group with none, exactly the text tabs of the
  schemes member, streamfile and object are closed. So every dirty tab stays open, no
  tab is added, and the four status bar items are hidden.
\<close>

theorem C7_onDisconnected:
  "length (tabGroups (onDisconnected w)) = length (tabGroups w)
   \<and> (\<forall>i < length (tabGroups w).
         tabGroups (onDisconnected w) ! i =
           (if list_ex tab_isDirty (tabGroups w ! i) then tabGroups w ! i
            else filter (\<lambda>tab. \<not> closeCalled tab) (tabGroups w ! i)))
   \<and> (\<forall>tab \<in> set (openTabs w). tab_isDirty tab \<longrightarrow> tab \<in> set (openTabs (onDisconnected w)))
   \<and> set (openTabs (onDisconnected w)) \<subseteq> set (openTabs w)
   \<and> visibleBarItems (onDisconnected w) = []"
proof (intro conjI allI impI ballI)
  show "length (tabGroups (onDisconnected w)) = length (tabGroups w)"
    by (simp add: onDisconnected_def)
next
  fix i assume "i < length (tabGroups w)"
  then show "tabGroups (onDisconnected w) ! i =
           (if list_ex tab_isDirty (tabGroups w ! i) then tabGroups w ! i
            else filter (\<lambda>tab. \<not> closeCalled tab) (tabGroups w ! i))"
    by (simp add: onDisconnected_def closeTabs_def)
next
  fix tab assume "tab \<in> set (openTabs w)" and d: "tab_isDirty tab"
  then obtain g where g: "g \<in> set (tabGroups w)" "tab \<in> set g"
    by (auto simp: openTabs_def)
  with d have "list_ex tab_isDirty g" by (auto simp: list_ex_iff)
  with g show "tab \<in> set (openTabs (onDisconnected w))"
    by (auto simp: openTabs_def onDisconnected_def intro!: bexI [of _ g])
next
  show "set (openTabs (onDisconnected w)) \<subseteq> set (openTabs w)"
    by (auto simp: openTabs_def onDisconnected_def closeTabs_def split: if_splits)
next
  show "visibleBarItems (onDisconnected w) = []"
    by (simp only: onDisconnected_def hide_all) simp
qed

text \<open>The theorem at a window with the group of the counterexample and a group of three
  saved tabs: a member, a stream file and a local file.\<close>

theorem C7_onDisconnected_witness:
  "tabGroups (onDisconnected
     \<lparr> tabGroups =
         [[\<lparr> tab_label = ''A.RPGLE'',
             tab_input = TabInputText \<lparr> scheme = ''member'', authority = [],
               path = ''/LIB/QRPGLESRC/A.RPGLE'', query = [], fragment = [] \<rparr>,
             tab_isDirty = False \<rparr>,
           \<lparr> tab_label = ''notes.txt'',
             tab_input = TabInputText \<lparr> scheme = ''file'', authority = [],
               path = ''/home/me/notes.txt'', query = [], fragment = [] \<rparr>,
             tab_isDirty = True \<rparr>],
          [\<lparr> tab_label = ''B.RPGLE'',
             tab_input = TabInputText \<lparr> scheme = ''member'', authority = [],
               path = ''/LIB/QRPGLESRC/B.RPGLE'', query = [], fragment = [] \<rparr>,
             tab_isDirty = False \<rparr>,
           \<lparr> tab_label = ''c.txt'',
             tab_input = TabInputText \<lparr> scheme = ''streamfile'', authority = [],
               path = ''/home/me/c.txt'', query = [], fragment = [] \<rparr>,
             tab_isDirty = False \<rparr>,
           \<lparr> tab_label = ''d.txt'',
             tab_input = TabInputText \<lparr> scheme = ''file'', authority = [],
               path = ''/home/me/d.txt'', query = [], fragment = [] \<rparr>,
             tab_isDirty = False \<rparr>]],
       visibleBarItems = [disconnectBarItem, connectedBarItem, terminalBarItem] \<rparr>)
   = [[\<lparr> tab_label = ''A.RPGLE'',
             tab_input = TabInputText \<lparr> scheme = ''member'', authority = [],
               path = ''/LIB/QRPGLESRC/A.RPGLE'', query = [], fragment = [] \<rparr>,
             tab_isDirty = False \<rparr>,
           \<lparr> tab_label = ''notes.txt'',
             tab_input = TabInputText \<lparr> scheme = ''file'', authority = [],
               path = ''/home/me/notes.txt'', query = [], fragment = [] \<rparr>,
             tab_isDirty = True \<rparr>],
      [\<lparr> tab_label = ''d.txt'',
             tab_input = TabInputText \<lparr> scheme = ''file'', authority = [],
               path = ''/home/me/d.txt'', query = [], fragment = [] \<rparr>,
             tab_isDirty = False \<rparr>]]
   \<and> visibleBarItems (onDisconnected
     \<lparr> tabGroups =
         [[\<lparr> tab_label = ''A.RPGLE'',
             tab_input = TabInputText \<lparr> scheme = ''member'', authority = [],
               path = ''/LIB/QRPGLESRC/A.RPGLE'', query = [], fragment = [] \<rparr>,
             tab_isDirty = False \<rparr>,
           \<lparr> tab_label = ''notes.txt'',
             tab_input = TabInputText \<lparr> scheme = ''file'', authority = [],
               path = ''/home/me/notes.txt'', query = [], fragment = [] \<rparr>,
             tab_isDirty = True \<rparr>],
          [\<lparr> tab_label = ''B.RPGLE'',
             tab_input = TabInputText \<lparr> scheme = ''member'', authority = [],
               path = ''/LIB/QRPGLESRC/B.RPGLE'', query = [], fragment = [] \<rparr>,
             tab_isDirty = False \<rparr>,
           \<lparr> tab_label = ''c.txt'',
             tab_input = TabInputText \<lparr> scheme = ''streamfile'', authority = [],
               path = ''/home/me/c.txt'', query = [], fragment = [] \<rparr>,
             tab_isDirty = False \<rparr>,
           \<lparr> tab_label = ''d.txt'',
             tab_input = TabInputText \<lparr> scheme = ''file'', authority = [],
               path = ''/home/me/d.txt'', query = [], fragment = [] \<rparr>,
             tab_isDirty = False \<rparr>]],
       visibleBarItems = [disconnectBarItem, connectedBarItem, terminalBarItem] \<rparr>) = []"
  using C7_onDisconnected [of
     "\<lparr> tabGroups =
         [[\<lparr> tab_label = ''A.RPGLE'',
             tab_input = TabInputText \<lparr> scheme = ''member'', authority = [],
               path = ''/LIB/QRPGLESRC/A.RPGLE'', query = [], fragment = [] \<rparr>,
             tab_isDirty = False \<rparr>,
           \<lparr> tab_label = ''notes.txt'',
             tab_input = TabInputText \<lparr> scheme = ''file'', authority = [],
               path = ''/home/me/notes.txt'', query = [], fragment = [] \<rparr>,
             tab_isDirty = True \<rparr>],
          [\<lparr> tab_label = ''B.RPGLE'',
             tab_input = TabInputText \<lparr> scheme = ''member'', authority = [],
               path = ''/LIB/QRPGLESRC/B.RPGLE'', query = [], fragment = [] \<rparr>,
             tab_isDirty = False \<rparr>,
           \<lparr> tab_label = ''c.txt'',
             tab_input = TabInputText \<lparr> scheme = ''streamfile'', authority = [],
               path = ''/home/me/c.txt'', query = [], fragment = [] \<rparr>,
             tab_isDirty = False \<rparr>,
           \<lparr> tab_label = ''d.txt'',
             tab_input = TabInputText \<lparr> scheme = ''file'', authority = [],
               path = ''/home/me/d.txt'', query = [], fragment = [] \<rparr>,
             tab_isDirty = False \<rparr>]],
       visibleBarItems = [disconnectBarItem, connectedBarItem, terminalBarItem] \<rparr>"]
  by (simp add: onDisconnected_def closeTabs_def closeCalled_def hide_def)

section \<open>Debug certificates\<close>

lemma download_local:
  "DownloadToLocal \<in> set (debug_setup_local force env) \<longleftrightarrow>
     connection env \<and> debugPTFInstalled env \<and> \<not> (checkLocalExists env \<and> \<not> force)"
  by (auto simp: debug_setup_local_def Let_def localCertContext_def)

lemma no_setup_local: "CertificatesSetup \<notin> set (debug_setup_local force env)"
  by (auto simp: debug_setup_local_def Let_def)

text \<open>
  Claim C8. The local command downloads the certificate exactly when a connection with
  the debug service is there and it is not the case that the local certificate exists
  and \<open>force\<close> is off. When the remote command has just generated the certificates it
  passes \<open>force\<close> on, so the download happens whether or not a local certificate
  exists; when the remote certificates were already there, nothing is generated and the
  download happens only if the local certificate is missing.
\<close>

theorem C8_debug_setup:
  "(DownloadToLocal \<in> set (debug_setup_local force env) \<longleftrightarrow>
      connection env \<and> debugPTFInstalled env \<and> \<not> (checkLocalExists env \<and> \<not> force))
   \<and> (freshlyGenerated env \<longrightarrow>
        CertificatesSetup \<in> set (debug_setup_remote env)
        \<and> DownloadToLocal \<in> set (debug_setup_remote env))
   \<and> (connection env \<and> debugPTFInstalled env \<and> checkRemoteExists env \<longrightarrow>
        CertificatesSetup \<notin> set (debug_setup_remote env)
        \<and> (DownloadToLocal \<in> set (debug_setup_remote env) \<longleftrightarrow> \<not> checkLocalExists env))"
  using download_local [of True env] download_local [of False env] download_local [of force env]
    no_setup_local [of False env] no_setup_local [of True env]
  by (auto simp: debug_setup_remote_def freshlyGenerated_def Let_def split: option.splits)

text \<open>The theorem where the remote certificates are missing, the user continues, the
  setup succeeds and a local certificate exists already.\<close>

theorem C8_debug_setup_witness:
  "freshlyGenerated
     \<lparr> connection = True, startDebugService = True, checkRemoteExists = False,
       doSetup = Some ''Continue'', setupThrows = None, checkLocalExists = True,
       downloadToLocalThrows = False \<rparr>
   \<and> debug_setup_remote
     \<lparr> connection = True, startDebugService = True, checkRemoteExists = False,
       doSetup = Some ''Continue'', setupThrows = None, checkLocalExists = True,
       downloadToLocalThrows = False \<rparr>
     = [DebugInformationMessage ''Debug setup'' [''Continue''], CertificatesSetup,
        SetContext remoteCertContext True, DownloadToLocal, SetContext localCertContext True]
   \<and> debug_setup_remote
     \<lparr> connection = True, startDebugService = True, checkRemoteExists = True,
       doSetup = None, setupThrows = None, checkLocalExists = True,
       downloadToLocalThrows = False \<rparr>
     = [SetContext remoteCertContext True, SetContext localCertContext True]"
  using
    C8_debug_setup [of True
      "\<lparr> connection = True, startDebugService = True, checkRemoteExists = False,
         doSetup = Some ''Continue'', setupThrows = None, checkLocalExists = True,
         downloadToLocalThrows = False \<rparr>"]
    C8_debug_setup [of False
      "\<lparr> connection = True, startDebugService = True, checkRemoteExists = True,
         doSetup = None, setupThrows = None, checkLocalExists = True,
         downloadToLocalThrows = False \<rparr>"]
  by (simp add: freshlyGenerated_def debug_setup_remote_def debug_setup_local_def
        debugPTFInstalled_def truthyString_def)

section \<open>The colour checker\<close>

declare replaceLoop.simps [simp del]

lemma replaceLoop_length: "length (replaceLoop content i chars) = length chars"
proof (induction content i chars rule: replaceLoop.induct)
  case (1 content i chars)
  show ?case
    using 1 by (subst replaceLoop.simps) simp
qed

lemma replaceLoop_nth:
  "length chars = length content \<Longrightarrow> j < length content \<Longrightarrow>
   replaceLoop content i chars ! j =
     (if i \<le> j \<and> replaceCharCode (charCodeAt content j) then 32 else chars ! j)"
proof (induction content i chars arbitrary: j rule: replaceLoop.induct)
  case (1 content i chars)
  show ?case
  proof (cases "i < length content")
    case True
    let ?chars' = "if replaceCharCode (charCodeAt content i) then chars[i := 32] else chars"
    have len: "length ?chars' = length content" using 1(2) by simp
    have "replaceLoop content i chars ! j = replaceLoop content (Suc i) ?chars' ! j"
      using True by (subst replaceLoop.simps) simp
    also have "\<dots> = (if Suc i \<le> j \<and> replaceCharCode (charCodeAt content j) then 32 else ?chars' ! j)"
      by (rule 1(1) [OF True len 1(3)])
    also have "\<dots> = (if i \<le> j \<and> replaceCharCode (charCodeAt content j) then 32 else chars ! j)"
      using 1(2) 1(3) True by (cases "i = j") (auto simp: Suc_le_eq)
    finally show ?thesis .
  next
    case False
    then show ?thesis using 1(3) by (subst replaceLoop.simps) simp
  qed
qed

lemma replaceInvalidCharacters_nth:
  "i < length content \<Longrightarrow>
   replaceInvalidCharacters content ! i =
     (if replaceCharCode (charCodeAt content i) then 32 else content ! i)"
  by (simp add: replaceInvalidCharacters_def replaceLoop_nth)

lemma replaceInvalidCharacters_length:
  "length (replaceInvalidCharacters content) = length content"
  by (simp add: replaceInvalidCharacters_def replaceLoop_length)

lemma replaceCharCode_space: "\<not> replaceCharCode (unat (32 :: 16 word))"
  by (simp add: replaceCharCode_def)

lemma replaceInvalidCharacters_clean:
  "i < length content \<Longrightarrow>
   \<not> replaceCharCode (charCodeAt (replaceInvalidCharacters content) i)"
  using replaceCharCode_space
  by (simp add: charCodeAt_def replaceInvalidCharacters_nth)

lemma replaceInvalidCharacters_idem:
  "replaceInvalidCharacters (replaceInvalidCharacters content) = replaceInvalidCharacters content"
  by (rule nth_equalityI)
     (simp_all add: replaceInvalidCharacters_length replaceInvalidCharacters_nth
        replaceInvalidCharacters_clean)

text \<open>
  Claim C9. \<^verbatim>\<open>replaceInvalidCharacters\<close> keeps the length of its input; the code unit at
  each position becomes a space (32) exactly when its code is below 32 and neither 10
  nor 13, or between 128 and 157 inclusive, and is unchanged otherwise; so the function
  is idempotent and no code unit of its output is flagged by \<^verbatim>\<open>replaceCharCode\<close>.
\<close>

theorem C9_replaceInvalidCharacters:
  "length (replaceInvalidCharacters content) = length content
   \<and> (\<forall>i < length content.
         replaceInvalidCharacters content ! i =
           (if (unat (content ! i) < 32 \<and> unat (content ! i) \<noteq> 10 \<and> unat (content ! i) \<noteq> 13)
               \<or> (128 \<le> unat (content ! i) \<and> unat (content ! i) \<le> 157)
            then 32 else content ! i))
   \<and> replaceInvalidCharacters (replaceInvalidCharacters content) = replaceInvalidCharacters content
   \<and> (\<forall>i < length (replaceInvalidCharacters content).
         \<not> replaceCharCode (charCodeAt (replaceInvalidCharacters content) i))"
proof (intro conjI allI impI)
  show "length (replaceInvalidCharacters content) = length content"
    by (rule replaceInvalidCharacters_length)
next
  fix i assume "i < length content"
  then show "replaceInvalidCharacters content ! i =
           (if (unat (content ! i) < 32 \<and> unat (content ! i) \<noteq> 10 \<and> unat (content ! i) \<noteq> 13)
               \<or> (128 \<le> unat (content ! i) \<and> unat (content ! i) \<le> 157)
            then 32 else content ! i)"
    by (simp add: replaceInvalidCharacters_nth replaceCharCode_def charCodeAt_def
          NEW_LINE_NUMBERS_def)
next
  show "replaceInvalidCharacters (replaceInvalidCharacters content) = replaceInvalidCharacters content"
    by (rule replaceInvalidCharacters_idem)
next
  fix i assume "i < length (replaceInvalidCharacters content)"
  then show "\<not> replaceCharCode (charCodeAt (replaceInvalidCharacters content) i)"
    by (simp add: replaceInvalidCharacters_length replaceInvalidCharacters_clean)
qed

text \<open>The theorem at the string of code units 65, 7, 10, 13, 130, 158 and 0x20AC.\<close>

theorem C9_replaceInvalidCharacters_witness:
  "replaceInvalidCharacters [65, 7, 10, 13, 130, 158, 0x20AC] = [65, 32, 10, 13, 32, 158, 0x20AC]
   \<and> length (replaceInvalidCharacters [65, 7, 10, 13, 130, 158, 0x20AC]) = 7
   \<and> replaceInvalidCharacters [65, 7, 10, 13, 130, 158, 0x20AC] ! 1 = 32"
  using C9_replaceInvalidCharacters [of "[65, 7, 10, 13, 130, 158, 0x20AC]"]
  apply (simp add: replaceInvalidCharacters_def)
  apply (simp add: replaceLoop.simps replaceCharCode_def charCodeAt_def NEW_LINE_NUMBERS_def)
  done

section \<open>The /connect URI handler\<close>

text \<open>What is saved: the list is unchanged, or the new entry is appended without its
  password and the password is stored under the key of the host.\<close>

lemma saveConnection_password:
  "connections stores = Some existing \<Longrightarrow>
   connections (saveConnection connectionData h pass stores) = Some after \<Longrightarrow>
   after = existing \<or>
   (after = existing @ [connectionData \<lparr> password := None \<rparr>]
    \<and> map_of (secrets (saveConnection connectionData h pass stores)) (h @ ''_password'') = Some pass)"
  by (auto simp: saveConnection_def secrets_store_def split: option.splits)

text \<open>
  Claim C10. The list holds a connection named \<^verbatim>\<open>bob-myhost\<close>. The handler receives
  \<^verbatim>\<open>/connect?server=myhost&user=bob&pass=...&save=true\<close> and the connection succeeds.
  The new entry, also named \<^verbatim>\<open>bob-myhost\<close>, is appended (without its password, which
  goes to the secret storage under \<^verbatim>\<open>myhost_password\<close>): line 69 looks for an entry
  whose name is the host, not the name of the new entry.
\<close>

theorem C10_handleUri_appends_duplicate_name:
  "snd (handleUri
     \<lparr> activeConnection = False,
       queryData = [(''server'', QString ''myhost''), (''user'', QString ''bob''),
                    (''pass'', QString ''c2VjcmV0''), (''save'', QString ''true'')],
       userInput = None, passInput = None, decodedPass = ''secret'',
       connectionResult = True \<rparr>
     \<lparr> scheme = ''vscode'', authority = ''halcyontechltd.code-for-ibmi'', path = ''/connect'',
       query = ''server=myhost&user=bob&pass=c2VjcmV0&save=true'', fragment = [] \<rparr>
     \<lparr> connections =
         Some [\<lparr> host = ''myhost'', name = ''bob-myhost'', username = ''bob'',
                 password = None, port = Literal 22 \<rparr>],
       secrets = [] \<rparr>)
   = \<lparr> connections =
         Some [\<lparr> host = ''myhost'', name = ''bob-myhost'', username = ''bob'',
                 password = None, port = Literal 22 \<rparr>,
               \<lparr> host = ''myhost'', name = ''bob-myhost'', username = ''bob'',
                 password = None, port = Literal 22 \<rparr>],
       secrets = [(''myhost_password'', ''secret'')] \<rparr>"
  by (simp add: handleUri_def saveConnection_def String_of_def truthyQuery_def secrets_store_def
        Let_def)

end
